theory Spec2Isabelle
  imports Complex_Main "HOL-Library.Log_Nat" "HOL-Library.Word"
begin

section \<open>JavaScript numbers\<close>

text \<open>
  Every arithmetic value of the hooks is a JavaScript \<open>number\<close>, an IEEE-754 binary64
  value. A finite double is a rational, so a number is modelled by the rational it denotes,
  and every arithmetic operation computes the exact result and rounds it to the nearest
  double, ties to the even significand (\<open>fl\<close>). The exponent range is not bounded: NaN,
  the infinities and subnormal results are outside the model (the values of the hooks stay
  far inside the normal range: products of two integers below \<open>2^53\<close>, quotients by
  \<open>10^9\<close>).
\<close>

type_synonym number = rat

definition rne :: "rat \<Rightarrow> int" where
  \<comment> \<open>round to the nearest integer, ties to even\<close>
  "rne r = (let f = \<lfloor>r\<rfloor>; d = r - of_int f in
     if d < 1 / 2 then f else if 1 / 2 < d then f + 1 else if even f then f else f + 1)"

definition ilog2 :: "rat \<Rightarrow> int" where
  \<comment> \<open>the binary exponent of a positive rational: \<open>2 powi ilog2 x \<le> x < 2 powi (ilog2 x + 1)\<close>\<close>
  "ilog2 x = (case quotient_of x of (n, d) \<Rightarrow>
     let L = bitlen n - bitlen d in if 2 powi L \<le> x then L else L - 1)"

definition fl :: "rat \<Rightarrow> number" where
  \<comment> \<open>the double nearest to \<open>x\<close>: a 53-bit significand \<open>m\<close> scaled by \<open>2 powi e\<close>\<close>
  "fl x = (if x = 0 then 0 else
     let e = ilog2 \<bar>x\<bar> - 52; m = rne (\<bar>x\<bar> / 2 powi e) in sgn x * of_int m * 2 powi e)"

definition js_add :: "number \<Rightarrow> number \<Rightarrow> number" where
  "js_add x y = fl (x + y)"

definition js_sub :: "number \<Rightarrow> number \<Rightarrow> number" where
  "js_sub x y = fl (x - y)"

definition js_mul :: "number \<Rightarrow> number \<Rightarrow> number" where
  "js_mul x y = fl (x * y)"

definition js_div :: "number \<Rightarrow> number \<Rightarrow> number" where
  "js_div x y = fl (x / y)"

definition Math_floor :: "number \<Rightarrow> number" where
  "Math_floor x = of_int \<lfloor>x\<rfloor>"

definition LAMPORTS_PER_SOL :: number where
  "LAMPORTS_PER_SOL = 1000000000"

definition POINTS_PER_SOL :: number where
  \<comment> \<open>100000 points = 1 SOL\<close>
  "POINTS_PER_SOL = 100000"

fun str_includes :: "string \<Rightarrow> string \<Rightarrow> bool" where
  \<comment> \<open>\<open>String.prototype.includes\<close>\<close>
  "str_includes [] t = (t = [])"
| "str_includes (c # cs) t = (take (length t) (c # cs) = t \<or> str_includes cs t)"


section \<open>The stake account and its binary layout\<close>

text \<open>
  The fields of a position are unsigned integers. In useStakeProgram they are numbers that
  \<open>toNumber\<close> returned, hence below \<open>2^53\<close>; in useStaking they are \<open>BN\<close> values.
\<close>

type_synonym byte = "8 word"

record stake_account =
  owner :: "byte list"
  stakedAmount :: nat
  totalPoints :: nat
  lastUpdatedTime :: nat
  bump :: byte

fun BN_le :: "byte list \<Rightarrow> nat" where
  \<comment> \<open>\<open>new BN(bytes, 'le')\<close>: the unsigned little-endian value of a byte string\<close>
  "BN_le [] = 0"
| "BN_le (b # bs) = unat b + 256 * BN_le bs"

definition toNumber :: "nat \<Rightarrow> string + nat" where
  \<comment> \<open>\<open>BN.prototype.toNumber\<close> of bn.js: it asserts that the value has at most 53 bits\<close>
  "toNumber n =
     (if n < 2 ^ 53 then Inr n else Inl ''Number can only safely store up to 53 bits'')"

definition slice :: "byte list \<Rightarrow> nat \<Rightarrow> nat \<Rightarrow> byte list" where
  \<comment> \<open>\<open>data.slice(i, j)\<close>\<close>
  "slice data i j = take (j - i) (drop i data)"

definition parseStakeAccount :: "byte list \<Rightarrow> string + stake_account" where
  \<comment> \<open>useStakeProgram, \<open>fetchStakeAccount\<close>: the manual parse of an account of at least
      65 bytes. The offset starts at 8 (``Skip discriminator''); a field that does not
      fit a number makes \<open>toNumber\<close> throw.\<close>
  "parseStakeAccount data =
     (let ownerBytes = slice data 8 40 in
      case toNumber (BN_le (slice data 40 48)) of
        Inl e \<Rightarrow> Inl e
      | Inr staked \<Rightarrow>
         (case toNumber (BN_le (slice data 48 56)) of
            Inl e \<Rightarrow> Inl e
          | Inr points \<Rightarrow>
             (case toNumber (BN_le (slice data 56 64)) of
                Inl e \<Rightarrow> Inl e
              | Inr updated \<Rightarrow>
                  Inr \<lparr>owner = ownerBytes, stakedAmount = staked, totalPoints = points,
                       lastUpdatedTime = updated, bump = data ! 64\<rparr>)))"


section \<open>Accrual of points\<close>

definition pointsEarned :: "nat \<Rightarrow> stake_account \<Rightarrow> number" where
  \<comment> \<open>useStakeProgram, \<open>fetchStakeAccount\<close> (and the 30 second interval):
      \<open>now = Math.floor(Date.now() / 1000)\<close> is the clock in seconds\<close>
  "pointsEarned now a =
     (let timeElapsed = js_sub (of_nat now) (of_nat (lastUpdatedTime a)) in
      if 0 < stakedAmount a \<and> 0 < timeElapsed
      then Math_floor (js_div (js_mul (of_nat (stakedAmount a)) timeElapsed) LAMPORTS_PER_SOL)
      else 0)"

definition totalClaimablePoints :: "nat \<Rightarrow> stake_account \<Rightarrow> number" where
  "totalClaimablePoints now a = js_add (of_nat (totalPoints a)) (pointsEarned now a)"



section \<open>Effects: remote calls, toasts and hook state\<close>

datatype party = User | Platform | PointsAccount

datatype instr =
    CreatePdaAccount
  | Stake number
  | Unstake number
  | ClaimPoints
  | Transfer party party number

datatype call =
    GetLatestBlockhash
  | GetBalance
  | GetAccountInfo
  | BuildTransaction instr
  | WalletSendTransaction "instr list"
  | WalletSignTransaction "instr list"
  | SendRawTransaction "instr list"
  | ConfirmTransaction

datatype piece = Str string | Num number

datatype event =
    Call call
  | Toast string "piece list" bool
  | HotToast bool "piece list"

text \<open>
  \<open>Toast title description destructive\<close> is the toast of \<open>use-toast\<close>; \<open>HotToast ok message\<close>
  is \<open>toast.success\<close> or \<open>toast.error\<close> of \<open>react-hot-toast\<close>. A template string is the
  list of its pieces. Console output is not modelled.

  The outside world is an environment of replies, indexed by the position of the call in
  the run: the call at position \<open>i\<close> throws when \<open>fails i\<close> is a message, and otherwise
  returns the value of its kind at \<open>i\<close>.
\<close>

record env =
  fails :: "nat \<Rightarrow> string option"
  balance_at :: "nat \<Rightarrow> nat"
  account_at :: "nat \<Rightarrow> byte list option"

record wallet_ctx =
  connection :: bool
  publicKey :: bool
  pdaAccount :: bool
  program :: bool
  pointsAccountKeypair :: bool
  sendTransaction :: bool
  signTransaction :: bool
  platformKeyError :: "string option"

record hook_state =
  stakeAccount :: "stake_account option"
  loading :: bool

record program_state = hook_state +
  walletBalance :: number
  refreshing :: bool
  calculatedPoints :: number

record staking_state = hook_state +
  balance :: number
  pdaExists :: bool

record 's world =
  hook :: 's
  tick :: nat
  trace :: "event list"

type_synonym ('s, 'a) io = "'s world \<Rightarrow> (string + 'a) \<times> 's world"

definition returnE :: "'a \<Rightarrow> ('s, 'a) io" where
  "returnE x w = (Inr x, w)"

definition throwE :: "string \<Rightarrow> ('s, 'a) io" where
  "throwE e w = (Inl e, w)"

definition bindE :: "('s, 'a) io \<Rightarrow> ('a \<Rightarrow> ('s, 'b) io) \<Rightarrow> ('s, 'b) io" where
  "bindE m f w = (case m w of (Inl e, w') \<Rightarrow> (Inl e, w') | (Inr x, w') \<Rightarrow> f x w')"

definition thenE :: "('s, 'a) io \<Rightarrow> ('s, 'b) io \<Rightarrow> ('s, 'b) io" where
  "thenE m k = bindE m (\<lambda>_. k)"

fun seqE :: "('s, unit) io list \<Rightarrow> ('s, unit) io" where
  "seqE [] = returnE ()"
| "seqE (m # ms) = thenE m (seqE ms)"

definition tryCatchFinally ::
  "('s, 'a) io \<Rightarrow> (string \<Rightarrow> ('s, 'a) io) \<Rightarrow> ('s, unit) io \<Rightarrow> ('s, 'a) io" where
  \<comment> \<open>\<open>try { body } catch (error) { handler } finally { fin }\<close>\<close>
  "tryCatchFinally body handler fin w =
     (case body w of (r, w1) \<Rightarrow>
       (case (case r of Inl e \<Rightarrow> handler e w1 | Inr x \<Rightarrow> (Inr x, w1)) of (r2, w2) \<Rightarrow>
         (case fin w2 of (Inl e, w3) \<Rightarrow> (Inl e, w3) | (Inr _, w3) \<Rightarrow> (r2, w3))))"

definition modify :: "('s \<Rightarrow> 's) \<Rightarrow> ('s, unit) io" where
  "modify f w = (Inr (), w\<lparr>hook := f (hook w)\<rparr>)"

definition emit :: "event \<Rightarrow> ('s, unit) io" where
  "emit ev w = (Inr (), w\<lparr>trace := trace w @ [ev]\<rparr>)"

definition remote :: "env \<Rightarrow> call \<Rightarrow> ('s, nat) io" where
  \<comment> \<open>an awaited call: it is recorded, and it throws or returns its position\<close>
  "remote E c w =
     (let i = tick w; w' = w\<lparr>tick := i + 1, trace := trace w @ [Call c]\<rparr> in
      case fails E i of Some m \<Rightarrow> (Inl m, w') | None \<Rightarrow> (Inr i, w'))"

definition await :: "env \<Rightarrow> call \<Rightarrow> ('s, unit) io" where
  "await E c = thenE (remote E c) (returnE ())"

definition calls :: "event list \<Rightarrow> call list" where
  "calls tr = concat (map (\<lambda>ev. case ev of Call c \<Rightarrow> [c] | _ \<Rightarrow> []) tr)"

definition orDefault :: "string \<Rightarrow> string \<Rightarrow> string" where
  \<comment> \<open>\<open>error.message || dflt\<close>\<close>
  "orDefault msg dflt = (if msg = [] then dflt else msg)"

definition performed :: "('s, 'a) io \<Rightarrow> 's world \<Rightarrow> event list" where
  \<comment> \<open>the events an operation adds to the trace\<close>
  "performed m w = drop (length (trace w)) (trace (snd (m w)))"

definition setLoading :: "bool \<Rightarrow> ('z hook_state_scheme, unit) io" where
  "setLoading b = modify (\<lambda>s. s\<lparr>loading := b\<rparr>)"

definition setStakeAccount :: "stake_account option \<Rightarrow> ('z hook_state_scheme, unit) io" where
  "setStakeAccount a = modify (\<lambda>s. s\<lparr>stakeAccount := a\<rparr>)"

definition errorToast :: "string \<Rightarrow> ('s, unit) io" where
  \<comment> \<open>\<open>toast({ title: "Error", description, variant: "destructive" })\<close>\<close>
  "errorToast d = emit (Toast ''Error'' [Str d] True)"


section \<open>The hook useStakeProgram (manual account parse, payout from the points account)\<close>

definition resetAccount :: "(program_state, unit) io" where
  \<comment> \<open>\<open>setStakeAccount(null); setCalculatedPoints(0)\<close>\<close>
  "resetAccount = modify (\<lambda>s. s\<lparr>stakeAccount := None, calculatedPoints := 0\<rparr>)"

definition fetchStakeAccount_SP :: "wallet_ctx \<Rightarrow> env \<Rightarrow> nat \<Rightarrow> (program_state, unit) io" where
  "fetchStakeAccount_SP C E now =
     (if \<not> connection C \<or> \<not> pdaAccount C \<or> \<not> publicKey C \<or> \<not> program C then returnE ()
      else thenE (modify (\<lambda>s. s\<lparr>refreshing := True\<rparr>))
        (tryCatchFinally
          (bindE (remote E GetAccountInfo) (\<lambda>i.
             case account_at E i of
               None \<Rightarrow> resetAccount
             | Some data \<Rightarrow>
                 if 0 < length data then
                   if 8 + 32 + 8 + 8 + 8 + 1 \<le> length data then
                     (case parseStakeAccount data of
                        Inl e \<Rightarrow> throwE e
                      | Inr a \<Rightarrow>
                          thenE (modify (\<lambda>s. s\<lparr>calculatedPoints := totalClaimablePoints now a\<rparr>))
                                (setStakeAccount (Some a)))
                   else resetAccount
                 else resetAccount))
          (\<lambda>err. resetAccount)
          (modify (\<lambda>s. s\<lparr>refreshing := False\<rparr>))))"

definition fetchWalletBalance_SP :: "wallet_ctx \<Rightarrow> env \<Rightarrow> (program_state, unit) io" where
  "fetchWalletBalance_SP C E =
     (if \<not> connection C \<or> \<not> publicKey C then returnE ()
      else tryCatchFinally
          (bindE (remote E GetBalance) (\<lambda>i.
             modify (\<lambda>s. s\<lparr>walletBalance := js_div (of_nat (balance_at E i)) LAMPORTS_PER_SOL\<rparr>)))
          (\<lambda>err. modify (\<lambda>s. s\<lparr>walletBalance := 0\<rparr>))
          (returnE ()))"

definition blockhashMessage :: "string \<Rightarrow> string \<Rightarrow> string" where
  \<comment> \<open>the message of the catch blocks of useStakeProgram\<close>
  "blockhashMessage msg dflt =
     (let errorMsg = orDefault msg dflt in
      if str_includes errorMsg ''This transaction has already been processed'' \<or>
         str_includes errorMsg
           ''Transaction simulation failed: This transaction has already been processed''
      then ''Please try again. A new blockhash is required for each request.''
      else errorMsg)"

definition transferInstruction :: "number \<Rightarrow> ('s, unit) io" where
  \<comment> \<open>\<open>SystemProgram.transfer\<close> encodes the lamports as an unsigned 64-bit integer and
      throws when they do not fit (the text of the message is that of the encoder)\<close>
  "transferInstruction lamports =
     (if lamports < 2 ^ 64 then returnE () else throwE ''lamports do not fit 64 bits'')"

definition claimPoints_SP_submit ::
  "wallet_ctx \<Rightarrow> env \<Rightarrow> nat \<Rightarrow> number \<Rightarrow> (program_state, unit) io" where
  \<comment> \<open>\<open>claimPoints\<close> from \<open>setLoading(true)\<close> on. The \<open>return\<close> of the branch
      \<open>solToClaim = 0\<close> leaves the \<open>try\<close> block, so the two refreshes that follow the
      \<open>if\<close> run on the transfer branch only.\<close>
  "claimPoints_SP_submit C E now points =
     thenE (setLoading True)
       (tryCatchFinally
         (seqE
           [await E GetLatestBlockhash,
            await E (BuildTransaction ClaimPoints),
            await E (WalletSendTransaction [ClaimPoints]),
            await E ConfirmTransaction,
            (let solToClaim = Math_floor (js_div points POINTS_PER_SOL) in
             if 0 < solToClaim then
               (let lamportsToSend = js_mul solToClaim LAMPORTS_PER_SOL in
                seqE
                  [await E GetLatestBlockhash,
                   transferInstruction lamportsToSend,
                   await E (SendRawTransaction [Transfer PointsAccount User lamportsToSend]),
                   await E ConfirmTransaction,
                   emit (Toast ''Points Claimed''
                     [Str ''Claimed '', Num solToClaim, Str '' SOL for '',
                      Num (js_mul solToClaim POINTS_PER_SOL), Str '' points successfully!'']
                     False),
                   fetchStakeAccount_SP C E now,
                   fetchWalletBalance_SP C E])
             else errorToast ''You need at least 100000 points to claim 1 SOL.'')])
         (\<lambda>err. errorToast (blockhashMessage err ''Failed to claim points''))
         (setLoading False))"

definition claimPoints_SP :: "wallet_ctx \<Rightarrow> env \<Rightarrow> nat \<Rightarrow> (program_state, unit) io" where
  "claimPoints_SP C E now w =
     (if \<not> program C \<or> \<not> publicKey C \<or> \<not> pdaAccount C then returnE () w
      else if \<not> pointsAccountKeypair C
        then errorToast ''Points account private key not configured.'' w
      else let points = Math_floor (calculatedPoints (hook w)) in
        if points < 50000 then errorToast ''You need at least 50000 points to claim.'' w
        else claimPoints_SP_submit C E now points w)"


section \<open>The hook useStaking: shared reads, lib/anchor and lib/utils\<close>

definition fetchBalance :: "wallet_ctx \<Rightarrow> env \<Rightarrow> (staking_state, unit) io" where
  "fetchBalance C E =
     (if \<not> publicKey C \<or> \<not> connection C then returnE ()
      else tryCatchFinally
          (bindE (remote E GetBalance) (\<lambda>i.
             modify (\<lambda>s. s\<lparr>balance := js_div (of_nat (balance_at E i)) LAMPORTS_PER_SOL\<rparr>)))
          (\<lambda>err. errorToast ''Failed to fetch wallet balance'')
          (returnE ()))"

definition checkPDAExists :: "env \<Rightarrow> ('s, bool) io" where
  \<comment> \<open>lib/anchor: \<open>accountInfo !== null\<close>, and \<open>false\<close> when the fetch throws\<close>
  "checkPDAExists E =
     tryCatchFinally
       (bindE (remote E GetAccountInfo) (\<lambda>i. returnE (account_at E i \<noteq> None)))
       (\<lambda>err. returnE False)
       (returnE ())"

definition decodeStakeAccount :: "byte list \<Rightarrow> stake_account option" where
  \<comment> \<open>lib/anchor, \<open>getStakeAccount\<close>: the parse of the account data. It skips the
      discriminator too; the fields stay \<open>BN\<close> values.\<close>
  "decodeStakeAccount data =
     (if length data < 8 then None
      else let accountData = drop 8 data in
        if length accountData < 57 then None
        else Some \<lparr>owner = slice accountData 0 32,
                   stakedAmount = BN_le (slice accountData 32 40),
                   totalPoints = BN_le (slice accountData 40 48),
                   lastUpdatedTime = BN_le (slice accountData 48 56),
                   bump = accountData ! 56\<rparr>)"

definition getStakeAccount :: "env \<Rightarrow> ('s, stake_account option) io" where
  \<comment> \<open>lib/anchor: \<open>null\<close> for a missing or short account, and when the fetch throws\<close>
  "getStakeAccount E =
     tryCatchFinally
       (bindE (remote E GetAccountInfo) (\<lambda>i.
          returnE (case account_at E i of None \<Rightarrow> None | Some data \<Rightarrow> decodeStakeAccount data)))
       (\<lambda>err. returnE None)
       (returnE ())"

definition solToLamports :: "number \<Rightarrow> string + number" where
  \<comment> \<open>lib/utils: \<open>new BN(Math.floor(sol * LAMPORTS_PER_SOL))\<close>; the constructor of bn.js
      asserts that a number is below \<open>2^53\<close>\<close>
  "solToLamports sol =
     (let lamports = Math_floor (js_mul sol LAMPORTS_PER_SOL) in
      if \<bar>lamports\<bar> < 2 ^ 53 then Inr lamports else Inl ''Assertion failed'')"

definition calculatePoints_utils :: "nat \<Rightarrow> nat \<Rightarrow> nat \<Rightarrow> int" where
  \<comment> \<open>lib/utils, \<open>calculatePoints\<close>, in \<open>BN\<close> arithmetic (unbounded integers, division
      truncating towards zero) and with the divisor 86400; the hooks do not call it. The
      first argument is the clock.\<close>
  "calculatePoints_utils now staked updated =
     (let timeElapsed = int now - int updated; product = int staked * timeElapsed in
      sgn product * (\<bar>product\<bar> div 86400))"

definition readStakeAccount :: "env \<Rightarrow> (staking_state, unit) io" where
  \<comment> \<open>the \<open>try\<close> block of \<open>fetchStakeAccount\<close>, the same in the three variants\<close>
  "readStakeAccount E =
     bindE (checkPDAExists E) (\<lambda>exists.
       thenE (modify (\<lambda>s. s\<lparr>pdaExists := exists\<rparr>))
         (if exists
          then bindE (getStakeAccount E) (\<lambda>account. setStakeAccount account)
          else setStakeAccount None))"

definition fetchStakeAccount :: "wallet_ctx \<Rightarrow> env \<Rightarrow> (staking_state, unit) io" where
  "fetchStakeAccount C E =
     (if \<not> publicKey C then returnE ()
      else tryCatchFinally (readStakeAccount E)
          (\<lambda>err. errorToast ''Failed to fetch stake account'')
          (returnE ()))"

definition fetchStakeAccount_C :: "wallet_ctx \<Rightarrow> env \<Rightarrow> (staking_state, unit) io" where
  "fetchStakeAccount_C C E =
     (if \<not> publicKey C then returnE ()
      else tryCatchFinally (readStakeAccount E)
          (\<lambda>err. emit (HotToast False [Str ''Failed to fetch stake account'']))
          (returnE ()))"


section \<open>Variant A of useStaking (src/hooks/useStaking.ts)\<close>

definition walletNotConnected :: "('s, unit) io" where
  "walletNotConnected = errorToast ''Wallet not connected''"

definition createPdaAccount_A :: "wallet_ctx \<Rightarrow> env \<Rightarrow> (staking_state, bool) io" where
  "createPdaAccount_A C E =
     (if \<not> publicKey C \<or> \<not> sendTransaction C then thenE walletNotConnected (returnE False)
      else thenE (setLoading True)
        (tryCatchFinally
          (thenE
            (seqE
              [await E (BuildTransaction CreatePdaAccount),
               await E (WalletSendTransaction [CreatePdaAccount]),
               await E ConfirmTransaction,
               emit (Toast ''Success'' [Str ''Account created successfully''] False),
               modify (\<lambda>s. s\<lparr>pdaExists := True\<rparr>)])
            (returnE True))
          (\<lambda>err. thenE (emit (Toast ''Error'' [Str ''Failed to create account: '', Str err] True))
                     (returnE False))
          (setLoading False)))"

definition stakeError_A :: "string \<Rightarrow> (staking_state, unit) io" where
  "stakeError_A msg =
     (if str_includes msg ''6000'' then errorToast ''Amount must be greater than 0''
      else if str_includes msg ''6001'' then errorToast ''Insufficient staked amount''
      else if str_includes msg ''6002'' then errorToast ''Unauthorized access''
      else if str_includes msg ''6003'' then errorToast ''Arithmetic overflow''
      else emit (Toast ''Error'' [Str ''Staking failed: '', Str msg] True))"

definition stake_A :: "wallet_ctx \<Rightarrow> env \<Rightarrow> number \<Rightarrow> (staking_state, unit) io" where
  "stake_A C E amount w =
     (if \<not> publicKey C \<or> \<not> sendTransaction C then walletNotConnected w
      else if amount \<le> 0 then errorToast ''Amount must be greater than 0'' w
      else if balance (hook w) < amount then errorToast ''Insufficient balance'' w
      else thenE (setLoading True)
        (tryCatchFinally
          (bindE (if \<not> pdaExists (hook w) then createPdaAccount_A C E else returnE True)
            (\<lambda>created.
               if \<not> created then returnE ()
               else case solToLamports amount of
                 Inl e \<Rightarrow> throwE e
               | Inr lamports \<Rightarrow>
                   seqE
                     [await E (BuildTransaction (Stake lamports)),
                      await E (WalletSendTransaction [Stake lamports]),
                      await E ConfirmTransaction,
                      emit (Toast ''Success''
                        [Str ''Successfully staked '', Num amount, Str '' SOL''] False),
                      fetchBalance C E,
                      fetchStakeAccount C E]))
          stakeError_A
          (setLoading False)) w)"

definition unstakeError_A :: "string \<Rightarrow> (staking_state, unit) io" where
  "unstakeError_A msg =
     (if str_includes msg ''6001'' then errorToast ''Insufficient staked amount''
      else if str_includes msg ''6004'' then errorToast ''Arithmetic underflow''
      else emit (Toast ''Error'' [Str ''Unstaking failed: '', Str msg] True))"

definition unstake_A :: "wallet_ctx \<Rightarrow> env \<Rightarrow> number \<Rightarrow> (staking_state, unit) io" where
  "unstake_A C E amount w =
     (if \<not> publicKey C \<or> \<not> sendTransaction C then walletNotConnected w
      else if stakeAccount (hook w) = None then errorToast ''No stake account found'' w
      else if amount \<le> 0 then errorToast ''Amount must be greater than 0'' w
      else thenE (setLoading True)
        (tryCatchFinally
          (case solToLamports amount of
             Inl e \<Rightarrow> throwE e
           | Inr lamports \<Rightarrow>
               seqE
                 [await E (BuildTransaction (Unstake lamports)),
                  await E (WalletSendTransaction [Unstake lamports]),
                  await E ConfirmTransaction,
                  emit (Toast ''Success''
                    [Str ''Successfully unstaked '', Num amount, Str '' SOL''] False),
                  fetchBalance C E,
                  fetchStakeAccount C E])
          unstakeError_A
          (setLoading False)) w)"

definition claimPoints_A_submit :: "wallet_ctx \<Rightarrow> env \<Rightarrow> stake_account \<Rightarrow> (staking_state, unit) io" where
  \<comment> \<open>\<open>claimPoints\<close> from \<open>setLoading(true)\<close> on\<close>
  "claimPoints_A_submit C E acct =
     thenE (setLoading True)
       (tryCatchFinally
         (seqE
           [await E (BuildTransaction ClaimPoints),
            await E (WalletSendTransaction [ClaimPoints]),
            await E ConfirmTransaction,
            emit (Toast ''Success''
              [Str ''Successfully claimed '', Num (of_nat (totalPoints acct)),
               Str '' points''] False),
            fetchStakeAccount C E])
         (\<lambda>err. emit (Toast ''Error'' [Str ''Claiming failed: '', Str err] True))
         (setLoading False))"

definition claimPoints_A :: "wallet_ctx \<Rightarrow> env \<Rightarrow> (staking_state, unit) io" where
  "claimPoints_A C E w =
     (if \<not> publicKey C \<or> \<not> sendTransaction C then walletNotConnected w
      else case stakeAccount (hook w) of
        None \<Rightarrow> errorToast ''No points to claim'' w
      | Some acct \<Rightarrow>
          if totalPoints acct = 0 then errorToast ''No points to claim'' w
          else claimPoints_A_submit C E acct w)"


section \<open>Variant B of useStaking (loading guard, fee buffer, transfer to the platform account)\<close>

text \<open>
  The catch blocks of this variant also print the simulation logs of the error; like all
  console output, this is not modelled.
\<close>

definition pleaseWait :: "('s, unit) io" where
  "pleaseWait = emit (Toast ''Please wait'' [Str ''Transaction in progress''] True)"

definition signAndSend :: "wallet_ctx \<Rightarrow> env \<Rightarrow> instr list \<Rightarrow> ('s, unit) io" where
  \<comment> \<open>fresh blockhash, the wallet's signature, raw submission, confirmation. Without
      \<open>signTransaction\<close> the transaction stays unsigned and \<open>serialize()\<close> throws before
      anything is submitted (the text of the message is that of web3.js).\<close>
  "signAndSend C E tx =
     seqE
       [await E GetLatestBlockhash,
        (if signTransaction C then await E (WalletSignTransaction tx)
         else throwE ''Signature verification failed''),
        await E (SendRawTransaction tx),
        await E ConfirmTransaction]"

definition createPdaAccount_B :: "wallet_ctx \<Rightarrow> env \<Rightarrow> (staking_state, bool) io" where
  "createPdaAccount_B C E =
     (if \<not> publicKey C \<or> \<not> sendTransaction C then thenE walletNotConnected (returnE False)
      else thenE (setLoading True)
        (tryCatchFinally
          (thenE
            (seqE
              [await E (BuildTransaction CreatePdaAccount),
               signAndSend C E [CreatePdaAccount],
               emit (Toast ''Success'' [Str ''Account created successfully''] False),
               modify (\<lambda>s. s\<lparr>pdaExists := True\<rparr>)])
            (returnE True))
          (\<lambda>err. thenE (emit (Toast ''Error'' [Str ''Failed to create account: '', Str err] True))
                     (returnE False))
          (setLoading False)))"

definition getPlatformPubkey :: "wallet_ctx \<Rightarrow> ('s, unit) io" where
  \<comment> \<open>it throws when the platform key cannot be loaded from the environment\<close>
  "getPlatformPubkey C = (case platformKeyError C of Some e \<Rightarrow> throwE e | None \<Rightarrow> returnE ())"

definition stake_B :: "wallet_ctx \<Rightarrow> env \<Rightarrow> number \<Rightarrow> (staking_state, unit) io" where
  "stake_B C E amount w =
     (if loading (hook w) then pleaseWait w
      else if \<not> publicKey C \<or> \<not> sendTransaction C then walletNotConnected w
      else if amount \<le> 0 then errorToast ''Amount must be greater than 0'' w
      else thenE (setLoading True)
        (tryCatchFinally
          (bindE (if \<not> pdaExists (hook w) then createPdaAccount_B C E else returnE True)
            (\<lambda>created.
               if \<not> created then returnE ()
               else let lamports = Math_floor (js_mul amount LAMPORTS_PER_SOL) in
                 bindE (remote E GetBalance) (\<lambda>i.
                   let walletBalanceLamports = of_nat (balance_at E i); feeBuffer = 10000 in
                   if walletBalanceLamports < js_add lamports feeBuffer
                   then errorToast ''Insufficient balance (including fee buffer)''
                   else seqE
                     [getPlatformPubkey C,
                      await E (BuildTransaction (Stake lamports)),
                      signAndSend C E [Transfer User Platform lamports, Stake lamports],
                      emit (Toast ''Success''
                        [Str ''Successfully staked '', Num amount, Str '' SOL''] False),
                      fetchBalance C E,
                      fetchStakeAccount C E])))
          (\<lambda>err. emit (Toast ''Error'' [Str ''Staking failed: '', Str err] True))
          (setLoading False)) w)"

definition unstake_B :: "wallet_ctx \<Rightarrow> env \<Rightarrow> number \<Rightarrow> (staking_state, unit) io" where
  \<comment> \<open>\<open>stakedAmount.toNumber()\<close> is outside the \<open>try\<close> block: when it throws, the
      operation itself throws\<close>
  "unstake_B C E amount w =
     (if loading (hook w) then pleaseWait w
      else if \<not> publicKey C \<or> \<not> sendTransaction C then walletNotConnected w
      else case stakeAccount (hook w) of
        None \<Rightarrow> errorToast ''No stake account found'' w
      | Some acct \<Rightarrow>
          if amount \<le> 0 then errorToast ''Amount must be greater than 0'' w
          else let lamports = Math_floor (js_mul amount LAMPORTS_PER_SOL) in
           (case toNumber (stakedAmount acct) of
              Inl e \<Rightarrow> throwE e w
            | Inr stakedLamports \<Rightarrow>
                if of_nat stakedLamports < lamports
                then errorToast ''Cannot unstake more than currently staked amount'' w
                else thenE (setLoading True)
                  (tryCatchFinally
                    (seqE
                      [await E (BuildTransaction (Unstake lamports)),
                       signAndSend C E [Unstake lamports],
                       emit (Toast ''Success''
                         [Str ''Successfully unstaked '', Num amount, Str '' SOL''] False),
                       fetchBalance C E,
                       fetchStakeAccount C E])
                    (\<lambda>err. emit (Toast ''Error'' [Str ''Unstaking failed: '', Str err] True))
                    (setLoading False)) w))"

definition claimPoints_B_submit :: "wallet_ctx \<Rightarrow> env \<Rightarrow> stake_account \<Rightarrow> (staking_state, unit) io" where
  \<comment> \<open>\<open>claimPoints\<close> from \<open>setLoading(true)\<close> on\<close>
  "claimPoints_B_submit C E acct =
     thenE (setLoading True)
       (tryCatchFinally
         (seqE
           [await E (BuildTransaction ClaimPoints),
            signAndSend C E [ClaimPoints],
            emit (Toast ''Success''
              [Str ''Successfully claimed '', Num (of_nat (totalPoints acct)),
               Str '' points''] False),
            fetchStakeAccount C E])
         (\<lambda>err. emit (Toast ''Error'' [Str ''Claiming failed: '', Str err] True))
         (setLoading False))"

definition claimPoints_B :: "wallet_ctx \<Rightarrow> env \<Rightarrow> (staking_state, unit) io" where
  "claimPoints_B C E w =
     (if loading (hook w) then pleaseWait w
      else if \<not> publicKey C \<or> \<not> sendTransaction C then walletNotConnected w
      else case stakeAccount (hook w) of
        None \<Rightarrow> errorToast ''No points to claim'' w
      | Some acct \<Rightarrow>
          if totalPoints acct = 0 then errorToast ''No points to claim'' w
          else claimPoints_B_submit C E acct w)"


section \<open>Variant C of useStaking (mock transactions, react-hot-toast)\<close>

definition claimPoints_C_submit :: "wallet_ctx \<Rightarrow> env \<Rightarrow> stake_account \<Rightarrow> (staking_state, unit) io" where
  \<comment> \<open>\<open>claimPoints\<close> from \<open>setLoading(true)\<close> on: the transaction is a mock\<close>
  "claimPoints_C_submit C E acct =
     thenE (setLoading True)
       (tryCatchFinally
         (seqE
           [emit (HotToast True
              [Str ''Successfully claimed '', Num (of_nat (totalPoints acct)),
               Str '' points'']),
            fetchStakeAccount_C C E])
         (\<lambda>err. emit (HotToast False [Str ''Claiming failed: '', Str err]))
         (setLoading False))"

definition claimPoints_C :: "wallet_ctx \<Rightarrow> env \<Rightarrow> (staking_state, unit) io" where
  "claimPoints_C C E w =
     (if \<not> publicKey C \<or> \<not> signTransaction C
        then emit (HotToast False [Str ''Wallet not connected'']) w
      else case stakeAccount (hook w) of
        None \<Rightarrow> emit (HotToast False [Str ''No points to claim'']) w
      | Some acct \<Rightarrow>
          if totalPoints acct = 0 then emit (HotToast False [Str ''No points to claim'']) w
          else claimPoints_C_submit C E acct w)"

definition hasStoredPoints :: "'z hook_state_scheme \<Rightarrow> bool" where
  \<comment> \<open>a stake account is there and its stored \<open>totalPoints\<close> is not zero\<close>
  "hasStoredPoints s = (case stakeAccount s of None \<Rightarrow> False | Some acct \<Rightarrow> totalPoints acct \<noteq> 0)"


section \<open>Traces of operations\<close>

definition appends :: "('s, 'a) io \<Rightarrow> bool" where
  \<comment> \<open>the operation only adds events to the trace\<close>
  "appends m \<longleftrightarrow> (\<forall>w. \<exists>evs. trace (snd (m w)) = trace w @ evs)"

definition starts :: "('s, 'a) io \<Rightarrow> event \<Rightarrow> bool" where
  \<comment> \<open>the first event the operation adds is \<open>ev\<close>\<close>
  "starts m ev \<longleftrightarrow> (\<forall>w. \<exists>evs. trace (snd (m w)) = trace w @ ev # evs)"

definition silent :: "('s, unit) io \<Rightarrow> bool" where
  \<comment> \<open>the operation returns and leaves the trace as it is\<close>
  "silent m \<longleftrightarrow> (\<forall>w. fst (m w) = Inr () \<and> trace (snd (m w)) = trace w)"


section \<open>Sample inputs\<close>

definition readyCtx :: wallet_ctx where
  \<comment> \<open>a connected wallet, every key configured\<close>
  "readyCtx = \<lparr>connection = True, publicKey = True, pdaAccount = True, program = True,
     pointsAccountKeypair = True, sendTransaction = True, signTransaction = True,
     platformKeyError = None\<rparr>"

definition quietEnv :: env where
  \<comment> \<open>no call fails; the wallet holds 5 SOL, the derived account holds 65 zero bytes\<close>
  "quietEnv = \<lparr>fails = (\<lambda>_. None), balance_at = (\<lambda>_. 5000000000),
     account_at = (\<lambda>_. Some (replicate 65 0))\<rparr>"

definition programWorld :: "number \<Rightarrow> program_state world" where
  \<comment> \<open>useStakeProgram at rest, with the given \<open>calculatedPoints\<close>\<close>
  "programWorld p =
     \<lparr>hook = \<lparr>stakeAccount = None, loading = False, walletBalance = 5, refreshing = False,
              calculatedPoints = p\<rparr>,
      tick = 0, trace = []\<rparr>"

definition position :: "nat \<Rightarrow> nat \<Rightarrow> nat \<Rightarrow> stake_account" where
  "position staked points updated =
     \<lparr>owner = replicate 32 1, stakedAmount = staked, totalPoints = points,
      lastUpdatedTime = updated, bump = 254\<rparr>"

definition stakingWorld :: "bool \<Rightarrow> stake_account option \<Rightarrow> staking_state world" where
  \<comment> \<open>useStaking with 5 SOL in the wallet, an existing derived account, and the given
      \<open>loading\<close> flag and position\<close>
  "stakingWorld busy acct =
     \<lparr>hook = \<lparr>stakeAccount = acct, loading = busy, balance = 5, pdaExists = True\<rparr>,
      tick = 0, trace = []\<rparr>"


section \<open>Rounding to a double\<close>

lemma bitlen_powi_bounds:
  assumes "0 < n"
  shows "(2::rat) powi (bitlen n - 1) \<le> of_int n" and "of_int n < (2::rat) powi bitlen n"
proof -
  have b1: "1 \<le> bitlen n" using assms by (auto simp: bitlen_alt_def)
  from bitlen_bounds[OF assms] have lo: "2 ^ nat (bitlen n - 1) \<le> n" and hi: "n < 2 ^ nat (bitlen n)"
    by auto
  have "(of_int (2 ^ nat (bitlen n - 1)) :: rat) \<le> of_int n"
    using lo by (simp only: of_int_le_iff)
  then show "(2::rat) powi (bitlen n - 1) \<le> of_int n"
    using b1 by (simp add: power_int_def)
  have "(of_int n :: rat) < of_int (2 ^ nat (bitlen n))"
    using hi by (simp only: of_int_less_iff)
  then show "of_int n < (2::rat) powi bitlen n"
    using b1 by (simp add: power_int_def)
qed

lemma ilog2_bounds:
  assumes "0 < x"
  shows "2 powi ilog2 x \<le> x" and "x < 2 powi (ilog2 x + 1)"
proof -
  obtain n d where q: "quotient_of x = (n, d)" by (cases "quotient_of x")
  then have d: "0 < d" and x: "x = of_int n / of_int d"
    using quotient_of_denom_pos quotient_of_div by blast+
  have n: "0 < n" using assms d x by (simp add: zero_less_divide_iff)
  define L where "L = bitlen n - bitlen d"
  note bn = bitlen_powi_bounds[OF n] and bd = bitlen_powi_bounds[OF d]
  have dpos: "(0::rat) < of_int d" using d by simp
  have "x < 2 powi bitlen n / 2 powi (bitlen d - 1)"
    unfolding x using bn(2) bd(1) n
    by (intro frac_less) auto
  also have "\<dots> = 2 powi (L + 1)"
    by (simp add: L_def power_int_diff[symmetric] algebra_simps)
  finally have up: "x < 2 powi (L + 1)" .
  have "2 powi (bitlen n - 1) / 2 powi bitlen d < x"
    unfolding x using bn(1) bd(2) dpos n
    by (intro frac_less2) auto
  then have lo: "2 powi (L - 1) < x"
    by (simp add: L_def power_int_diff[symmetric] algebra_simps)
  have il: "ilog2 x = (if 2 powi L \<le> x then L else L - 1)"
    by (simp add: ilog2_def q L_def Let_def)
  show "2 powi ilog2 x \<le> x" using lo by (auto simp: il)
  show "x < 2 powi (ilog2 x + 1)" using up by (auto simp: il)
qed

lemma rne_of_int: "rne (of_int k) = k"
  by (simp add: rne_def)

lemma rne_bounds:
  "of_int (rne r) \<le> r + 1 / 2" "r - 1 / 2 \<le> of_int (rne r)" "\<lfloor>r\<rfloor> \<le> rne r"
  by (auto simp: rne_def Let_def) linarith+

lemma rne_nonneg: "0 \<le> r \<Longrightarrow> 0 \<le> rne r"
  using rne_bounds(3)[of r] by (smt (verit) zero_le_floor)

lemma fl_nonpos: "x \<le> 0 \<Longrightarrow> fl x \<le> 0"
proof -
  assume x: "x \<le> 0"
  have "0 \<le> rne (\<bar>x\<bar> / 2 powi (ilog2 \<bar>x\<bar> - 52))"
    by (intro rne_nonneg) simp
  then have "0 \<le> (of_int (rne (\<bar>x\<bar> / 2 powi (ilog2 \<bar>x\<bar> - 52))) :: rat) * 2 powi (ilog2 \<bar>x\<bar> - 52)"
    by simp
  then show ?thesis using x
    by (auto simp: fl_def Let_def sgn_if mult_le_0_iff)
qed

text \<open>An integer of at most 53 bits is a double.\<close>

lemma fl_exact_int:
  assumes "\<bar>n\<bar> < 2 ^ 53"
  shows "fl (of_int n) = of_int n"
proof (cases "n = 0")
  case True then show ?thesis by (simp add: fl_def)
next
  case False
  define a :: rat where "a = \<bar>of_int n\<bar>"
  have apos: "0 < a" using False by (simp add: a_def)
  define e where "e = ilog2 a - 52"
  have "2 powi ilog2 a \<le> a" using ilog2_bounds(1)[OF apos] .
  also have "a < 2 powi 53" using assms by (simp add: a_def flip: of_int_abs)
  finally have "ilog2 a < 53" by (intro power_int_le_imp_less_exp[of "2::rat"]) auto
  then have e: "e \<le> 0" by (simp add: e_def)
  have "a / 2 powi e = of_int (\<bar>n\<bar> * 2 ^ nat (- e))"
    using e by (simp add: a_def power_int_def field_simps)
  then have "rne (a / 2 powi e) = \<bar>n\<bar> * 2 ^ nat (- e)"
    by (simp only: rne_of_int)
  then have h: "of_int (rne (a / 2 powi e)) * 2 powi e = a"
    using e by (simp add: a_def power_int_def field_simps)
  have "fl (of_int n) = sgn (of_int n) * (of_int (rne (a / 2 powi e)) * 2 powi e)"
    using False by (simp add: fl_def Let_def a_def e_def)
  also have "\<dots> = sgn (of_int n) * a" by (simp only: h)
  also have "\<dots> = of_int n" by (simp only: a_def sgn_mult_abs)
  finally show ?thesis .
qed

lemma fl_exact_nat: "n < 2 ^ 53 \<Longrightarrow> fl (of_nat n) = of_nat n"
  using fl_exact_int[of "int n"] by simp

text \<open>
  The quotient of an integer below \<open>2^53\<close> by \<open>10^9\<close> is below \<open>2^24\<close>, where doubles
  are less than \<open>2 / 10^9\<close> apart: rounding the quotient never reaches the next integer.
\<close>

lemma fl_div_floor:
  assumes "0 \<le> p" "p < 2 ^ 53"
  shows "\<lfloor>fl (of_int p / 1000000000)\<rfloor> = p div 1000000000"
proof (cases "p = 0")
  case True then show ?thesis by (simp add: fl_def)
next
  case False
  define x :: rat where "x = of_int p / 1000000000"
  define q where "q = p div 1000000000"
  define r where "r = p mod 1000000000"
  have p: "p = q * 1000000000 + r" and r: "0 \<le> r" "r \<le> 999999999"
    by (auto simp: q_def r_def)
  have xpos: "0 < x" using False assms by (simp add: x_def)
  define e where "e = ilog2 x - 52"
  define k where "k = nat (- e)"
  have "2 powi ilog2 x \<le> x" using ilog2_bounds(1)[OF xpos] .
  also have "x < 2 powi 24" using assms by (simp add: x_def)
  finally have "ilog2 x < 24" by (intro power_int_le_imp_less_exp[of "2::rat"]) auto
  then have e: "e \<le> - 29" by (simp add: e_def)
  then have k: "29 \<le> k" and ek: "e = - int k" by (auto simp: k_def)
  have pw: "(2::rat) powi e = 1 / 2 ^ k" by (simp add: ek power_int_minus field_simps)
  have big: "(2::rat) ^ 29 \<le> 2 ^ k" using k by (intro power_increasing) auto
  define m where "m = rne (x / 2 powi e)"
  have sc: "x / 2 powi e = x * 2 ^ k" by (simp add: pw)
  have "fl x = of_int m * 2 powi e"
    using xpos by (simp add: fl_def Let_def m_def e_def)
  then have flx: "fl x = of_int m / 2 ^ k" by (simp add: pw)
  have xq: "x = of_int q + of_int r / 1000000000" by (simp add: x_def p)
  have lo: "of_int (q * 2 ^ k) \<le> x * 2 ^ k"
    using r by (simp add: xq)
  then have "q * 2 ^ k \<le> \<lfloor>x * 2 ^ k\<rfloor>" by (simp add: le_floor_iff)
  also have "\<dots> \<le> m" unfolding m_def sc by (rule rne_bounds(3))
  finally have mlo: "q * 2 ^ k \<le> m" .
  have "of_int m \<le> x * 2 ^ k + 1 / 2" unfolding m_def sc by (rule rne_bounds(1))
  also have "x * 2 ^ k \<le> (of_int q + 999999999 / 1000000000) * 2 ^ k"
    using r by (intro mult_right_mono) (auto simp: xq)
  also have "\<dots> + 1 / 2 = of_int (q + 1) * 2 ^ k - (2 ^ k / 1000000000 - 1 / 2)"
    by (simp add: algebra_simps)
  also have "\<dots> < of_int (q + 1) * 2 ^ k" using big by simp
  finally have mhi: "(of_int m :: rat) < of_int ((q + 1) * 2 ^ k)" by simp
  then have mhi': "m < (q + 1) * 2 ^ k" by (simp only: of_int_less_iff)
  have "\<lfloor>(of_int m :: rat) / 2 ^ k\<rfloor> = m div 2 ^ k"
    by (metis floor_divide_of_int_eq of_int_numeral of_int_power)
  also have "\<dots> = q"
  proof (rule int_div_pos_eq)
    show "m = 2 ^ k * q + (m - q * 2 ^ k)" by simp
    show "0 \<le> m - q * 2 ^ k" using mlo by simp
    show "m - q * 2 ^ k < 2 ^ k" using mhi' by (simp add: algebra_simps)
  qed
  finally have "\<lfloor>fl x\<rfloor> = q" by (simp only: flx)
  then show ?thesis by (simp only: x_def q_def)
qed


section \<open>The accrual computation\<close>

lemma pointsEarned_zero:
  assumes "stakedAmount a = 0 \<or> now \<le> lastUpdatedTime a"
  shows "pointsEarned now a = 0"
proof -
  have "now \<le> lastUpdatedTime a \<Longrightarrow> \<not> 0 < js_sub (of_nat now) (of_nat (lastUpdatedTime a))"
    using fl_nonpos[of "of_nat now - of_nat (lastUpdatedTime a)"]
    by (simp add: js_sub_def)
  with assms show ?thesis by (auto simp: pointsEarned_def Let_def)
qed

lemma pointsEarned_exact:
  assumes "0 < stakedAmount a" "lastUpdatedTime a < now"
    and "stakedAmount a * (now - lastUpdatedTime a) < 2 ^ 53"
  shows "pointsEarned now a = of_nat (stakedAmount a * (now - lastUpdatedTime a) div 10 ^ 9)"
proof -
  define t where "t = now - lastUpdatedTime a"
  have tpos: "0 < t" using assms(2) by (simp add: t_def)
  have pb: "stakedAmount a * t < 2 ^ 53" using assms(3) by (simp only: t_def)
  have "t \<le> stakedAmount a * t" using assms(1) by simp
  then have tb: "t < 2 ^ 53" using pb by (rule le_less_trans)
  have "(of_nat now :: rat) - of_nat (lastUpdatedTime a) = of_nat t"
    using assms(2) by (simp add: t_def)
  then have el: "js_sub (of_nat now) (of_nat (lastUpdatedTime a)) = of_nat t"
    using tb by (simp add: js_sub_def fl_exact_nat)
  have pr: "js_mul (of_nat (stakedAmount a)) (of_nat t) = of_nat (stakedAmount a * t)"
    using pb fl_exact_nat[of "stakedAmount a * t"] by (simp add: js_mul_def)
  define P where "P = stakedAmount a * t"
  have "\<lfloor>fl (of_int (int P) / 1000000000)\<rfloor> = int P div 1000000000"
  proof (rule fl_div_floor)
    show "0 \<le> int P" by simp
    have "int P < int (2 ^ 53)" using pb by (simp only: of_nat_less_iff P_def)
    then show "int P < 2 ^ 53" by simp
  qed
  moreover have "int P div 1000000000 = int (P div 1000000000)" by (simp add: zdiv_int)
  ultimately have "\<lfloor>fl (of_nat P / 1000000000)\<rfloor> = int (P div 1000000000)" by simp
  then have "Math_floor (js_div (of_nat P) LAMPORTS_PER_SOL) = of_nat (P div 10 ^ 9)"
    by (simp add: Math_floor_def js_div_def LAMPORTS_PER_SOL_def)
  then have fl: "Math_floor (js_div (of_nat (stakedAmount a * t)) LAMPORTS_PER_SOL) =
      of_nat (stakedAmount a * t div 10 ^ 9)"
    by (simp only: P_def)
  have "pointsEarned now a =
      Math_floor (js_div (js_mul (of_nat (stakedAmount a)) (of_nat t)) LAMPORTS_PER_SOL)"
    using assms(1) tpos by (simp add: pointsEarned_def Let_def el)
  also have "\<dots> = of_nat (stakedAmount a * t div 10 ^ 9)"
    by (simp only: pr fl)
  finally show ?thesis by (simp only: t_def)
qed


lemma fl_9022493999999999: "fl 9022493999999999 = 9022494000000000"
  by code_simp

lemma fl_small: "fl 100003 = 100003" "fl 9022494 = 9022494"
  using fl_exact_int[of 100003] fl_exact_int[of 9022494] by simp_all

text \<open>
  The reader never hands a field of 53 bits or more to the accrual: \<open>toNumber\<close> throws on
  it, so every field of an account that the parse accepts is below \<open>2^53\<close>, and an account
  with a larger staked amount leaves the hook without a position.
\<close>

lemma toNumber_u64_max:
  "toNumber (2 ^ 64 - 1) = Inl ''Number can only safely store up to 53 bits''"
  by (simp add: toNumber_def)

lemma parse_accepts_bounds:
  assumes "parseStakeAccount data = Inr acct"
  shows "stakedAmount acct < 2 ^ 53" "totalPoints acct < 2 ^ 53" "lastUpdatedTime acct < 2 ^ 53"
  using assms
  by (auto simp: parseStakeAccount_def toNumber_def Let_def split: if_splits)





lemma BN_le_zeros: "BN_le (replicate n 0) = 0"
  by (induction n) simp_all





text \<open>
  The accrual that \<open>fetchStakeAccount\<close> computes (the 30 second interval repeats it) has
  the guard: when nothing is staked, or the clock is not after the checkpoint, the
  claimable points are \<open>totalPoints\<close>, unchanged, for every account the parse accepts.
\<close>

lemma accrual_unchanged:
  assumes "totalPoints a < 2 ^ 53"
    and "stakedAmount a = 0 \<or> now \<le> lastUpdatedTime a"
  shows "totalClaimablePoints now a = of_nat (totalPoints a)"
  using assms(1) pointsEarned_zero[OF assms(2)]
  by (simp add: totalClaimablePoints_def js_add_def fl_exact_nat)

lemma accrual_unchanged_of_reader:
  assumes "parseStakeAccount data = Inr a"
    and "stakedAmount a = 0 \<or> now \<le> lastUpdatedTime a"
  shows "totalClaimablePoints now a = of_nat (totalPoints a)"
  using parse_accepts_bounds(2)[OF assms(1)] assms(2) by (rule accrual_unchanged)

lemma accrual_unchanged_backdated:
  "totalClaimablePoints 50
     \<lparr>owner = [], stakedAmount = 5000000000, totalPoints = 1000, lastUpdatedTime = 100,
      bump = 0\<rparr> = 1000"
  using accrual_unchanged[of
      "\<lparr>owner = [], stakedAmount = 5000000000, totalPoints = 1000, lastUpdatedTime = 100,
        bump = 0\<rparr>" 50]
  by simp


text \<open>
  Claim C4, as amended. For \<open>stakedAmount > 0\<close> and \<open>now > lastUpdatedTime\<close> the claimable
  points are \<open>totalPoints + floor(stakedAmount * (now - lastUpdatedTime) / 10^9)\<close>, provided
  the product and the sum are below \<open>2^53\<close>, where the arithmetic of numbers is exact.
\<close>

theorem accrual_formula:
  assumes "0 < stakedAmount a" "lastUpdatedTime a < now"
    and "stakedAmount a * (now - lastUpdatedTime a) < 2 ^ 53"
    and "totalPoints a + stakedAmount a * (now - lastUpdatedTime a) div 10 ^ 9 < 2 ^ 53"
  shows "totalClaimablePoints now a =
    of_nat (totalPoints a + stakedAmount a * (now - lastUpdatedTime a) div 10 ^ 9)"
  using assms(4)
    fl_exact_nat[of "totalPoints a + stakedAmount a * (now - lastUpdatedTime a) div 10 ^ 9"]
  by (simp add: totalClaimablePoints_def js_add_def pointsEarned_exact[OF assms(1-3)])

text \<open>Witness for C4: ten SOL staked for one day earn 864000 points.\<close>

theorem accrual_formula_witness:
  "totalClaimablePoints (1700000000 + 86400)
     \<lparr>owner = [], stakedAmount = 10 * 10 ^ 9, totalPoints = 0, lastUpdatedTime = 1700000000,
      bump = 0\<rparr> = 864000"
  using accrual_formula[of
      "\<lparr>owner = [], stakedAmount = 10 * 10 ^ 9, totalPoints = 0, lastUpdatedTime = 1700000000,
        bump = 0\<rparr>" "1700000000 + 86400"]
  by simp

text \<open>
  Counterexample to C4 as stated: \<open>90.222233333\<close> SOL staked for \<open>100003\<close> seconds. The
  product \<open>9022493999999999\<close> is rounded to \<open>9022494000000000\<close>, and the result is
  \<open>9022494\<close> points, one more than the floor of the exact quotient.
\<close>

theorem accrual_rounded_counterexample:
  "totalClaimablePoints 1700100003
     \<lparr>owner = [], stakedAmount = 90222233333, totalPoints = 0, lastUpdatedTime = 1700000000,
      bump = 0\<rparr> = 9022494 \<and>
   (0 + 90222233333 * (1700100003 - 1700000000) div 10 ^ 9 :: nat) = 9022493"
  by (simp add: totalClaimablePoints_def pointsEarned_def js_add_def js_sub_def js_mul_def
      js_div_def Math_floor_def LAMPORTS_PER_SOL_def fl_small fl_9022493999999999)


section \<open>Operations only add to the trace\<close>

text \<open>The combinators, applied to a world.\<close>

lemma io_simps:
  "returnE x w = (Inr x, w)"
  "throwE e w = (Inl e, w)"
  "bindE m f w = (case m w of (Inl e, w') \<Rightarrow> (Inl e, w') | (Inr x, w') \<Rightarrow> f x w')"
  "thenE m k w = (case m w of (Inl e, w') \<Rightarrow> (Inl e, w') | (Inr x, w') \<Rightarrow> k w')"
  "modify g w = (Inr (), w\<lparr>hook := g (hook w)\<rparr>)"
  "emit ev w = (Inr (), w\<lparr>trace := trace w @ [ev]\<rparr>)"
  by (simp_all add: returnE_def throwE_def bindE_def thenE_def modify_def emit_def)

text \<open>
  Every operation of the hooks is built from combinators that only add events to the
  trace; a sequence that begins with an awaited call has that call as its first event,
  whatever the environment replies.
\<close>

named_theorems appends_intros

lemma appendsD: "appends m \<Longrightarrow> \<exists>evs. trace (snd (m w)) = trace w @ evs"
  by (simp add: appends_def)

lemma startsD: "starts m ev \<Longrightarrow> \<exists>evs. trace (snd (m w)) = trace w @ ev # evs"
  by (simp add: starts_def)

lemma starts_performed: "starts m ev \<Longrightarrow> \<exists>evs. performed m w = ev # evs"
  using startsD[of m ev w] by (auto simp: performed_def)

lemma appends_returnE [appends_intros]: "appends (returnE x)"
  by (simp add: appends_def io_simps)

lemma appends_throwE [appends_intros]: "appends (throwE e)"
  by (simp add: appends_def io_simps)

lemma appends_modify [appends_intros]: "appends (modify g)"
  by (simp add: appends_def io_simps)

lemma appends_emit [appends_intros]: "appends (emit ev)"
  by (simp add: appends_def io_simps)

lemma appends_remote [appends_intros]: "appends (remote E c)"
  by (simp add: appends_def remote_def Let_def split: option.split)

lemma appends_bindE [appends_intros]:
  assumes "appends m" "\<And>x. appends (f x)"
  shows "appends (bindE m f)"
proof (unfold appends_def, intro allI)
  fix w
  obtain r w1 where m: "m w = (r, w1)" by (cases "m w")
  from appendsD[OF assms(1), of w] m obtain evs where 1: "trace w1 = trace w @ evs" by auto
  show "\<exists>evs. trace (snd (bindE m f w)) = trace w @ evs"
  proof (cases r)
    case (Inl e)
    then show ?thesis using m 1 by (simp add: io_simps)
  next
    case (Inr x)
    from appendsD[OF assms(2), of x w1] obtain evs' where "trace (snd (f x w1)) = trace w1 @ evs'"
      by auto
    then show ?thesis using m 1 Inr by (simp add: io_simps)
  qed
qed

lemma appends_thenE [appends_intros]: "appends m \<Longrightarrow> appends k \<Longrightarrow> appends (thenE m k)"
  unfolding thenE_def by (rule appends_bindE)

lemma appends_await [appends_intros]: "appends (await E c)"
  unfolding await_def by (intro appends_intros)

lemma appends_seqE [appends_intros]: "list_all appends ms \<Longrightarrow> appends (seqE ms)"
  by (induction ms) (auto intro: appends_intros)

lemma appends_tryCatchFinally [appends_intros]:
  assumes "appends body" "\<And>e. appends (handler e)" "appends fin"
  shows "appends (tryCatchFinally body handler fin)"
proof (unfold appends_def, intro allI)
  fix w
  obtain r w1 where b: "body w = (r, w1)" by (cases "body w")
  from appendsD[OF assms(1), of w] b obtain e1 where 1: "trace w1 = trace w @ e1" by auto
  obtain r2 w2 where h: "(case r of Inl e \<Rightarrow> handler e w1 | Inr x \<Rightarrow> (Inr x, w1)) = (r2, w2)"
    by (cases "case r of Inl e \<Rightarrow> handler e w1 | Inr x \<Rightarrow> (Inr x, w1)")
  have "\<exists>e2. trace w2 = trace w1 @ e2"
  proof (cases r)
    case (Inl e)
    with h appendsD[OF assms(2), of e w1] show ?thesis by auto
  next
    case (Inr x)
    with h show ?thesis by auto
  qed
  then obtain e2 where 2: "trace w2 = trace w1 @ e2" by auto
  obtain r3 w3 where f: "fin w2 = (r3, w3)" by (cases "fin w2")
  from appendsD[OF assms(3), of w2] f obtain e3 where 3: "trace w3 = trace w2 @ e3" by auto
  have "snd (tryCatchFinally body handler fin w) = w3"
    using b h f by (simp add: tryCatchFinally_def split: sum.split)
  then show "\<exists>evs. trace (snd (tryCatchFinally body handler fin w)) = trace w @ evs"
    using 1 2 3 by simp
qed

lemma appends_if [appends_intros]:
  "(c \<Longrightarrow> appends a) \<Longrightarrow> (\<not> c \<Longrightarrow> appends b) \<Longrightarrow> appends (if c then a else b)"
  by simp

lemma appends_setLoading [appends_intros]: "appends (setLoading b)"
  unfolding setLoading_def by (intro appends_intros)

lemma appends_setStakeAccount [appends_intros]: "appends (setStakeAccount a)"
  unfolding setStakeAccount_def by (intro appends_intros)

lemma appends_errorToast [appends_intros]: "appends (errorToast d)"
  unfolding errorToast_def by (intro appends_intros)

lemma appends_resetAccount [appends_intros]: "appends resetAccount"
  unfolding resetAccount_def by (intro appends_intros)

lemma appends_fetchStakeAccount_SP [appends_intros]: "appends (fetchStakeAccount_SP C E now)"
  unfolding fetchStakeAccount_SP_def
  by (intro appends_intros) (auto intro!: appends_intros split: option.split sum.split)

lemma appends_fetchWalletBalance_SP [appends_intros]: "appends (fetchWalletBalance_SP C E)"
  unfolding fetchWalletBalance_SP_def by (intro appends_intros)

lemma appends_checkPDAExists [appends_intros]: "appends (checkPDAExists E)"
  unfolding checkPDAExists_def by (intro appends_intros)

lemma appends_getStakeAccount [appends_intros]: "appends (getStakeAccount E)"
  unfolding getStakeAccount_def by (intro appends_intros)

lemma appends_readStakeAccount [appends_intros]: "appends (readStakeAccount E)"
  unfolding readStakeAccount_def by (intro appends_intros)

lemma appends_fetchStakeAccount [appends_intros]: "appends (fetchStakeAccount C E)"
  unfolding fetchStakeAccount_def by (intro appends_intros)

lemma appends_fetchStakeAccount_C [appends_intros]: "appends (fetchStakeAccount_C C E)"
  unfolding fetchStakeAccount_C_def by (intro appends_intros)

lemma appends_transferInstruction [appends_intros]: "appends (transferInstruction lamports)"
  unfolding transferInstruction_def by (intro appends_intros)

lemma appends_signAndSend [appends_intros]: "appends (signAndSend C E tx)"
  unfolding signAndSend_def by (intro appends_intros) (simp add: appends_intros)

lemma silent_setLoading: "silent (setLoading b)"
  by (simp add: silent_def setLoading_def io_simps)

lemma starts_await: "starts (await E c) (Call c)"
  by (simp add: starts_def await_def remote_def io_simps Let_def split: option.split)

lemma starts_emit: "starts (emit ev) ev"
  by (simp add: starts_def io_simps)

lemma starts_thenE:
  assumes "starts m ev" "appends k"
  shows "starts (thenE m k) ev"
proof (unfold starts_def, intro allI)
  fix w
  obtain r w1 where m: "m w = (r, w1)" by (cases "m w")
  from startsD[OF assms(1), of w] m obtain evs where 1: "trace w1 = trace w @ ev # evs" by auto
  from appendsD[OF assms(2), of w1] obtain evs' where 2: "trace (snd (k w1)) = trace w1 @ evs'"
    by auto
  show "\<exists>evs. trace (snd (thenE m k w)) = trace w @ ev # evs"
    using m 1 2 by (cases r) (simp_all add: io_simps)
qed

lemma starts_seqE: "starts m ev \<Longrightarrow> list_all appends ms \<Longrightarrow> starts (seqE (m # ms)) ev"
  by (simp add: starts_thenE appends_seqE)

lemma starts_silent_thenE:
  assumes "silent m" "starts k ev"
  shows "starts (thenE m k) ev"
proof (unfold starts_def, intro allI)
  fix w
  obtain w1 where m: "m w = (Inr (), w1)" and t: "trace w1 = trace w"
    using assms(1) by (cases "m w") (auto simp: silent_def dest!: spec[of _ w])
  from startsD[OF assms(2), of w1] show "\<exists>evs. trace (snd (thenE m k w)) = trace w @ ev # evs"
    using m t by (simp add: io_simps)
qed

lemma starts_tryCatchFinally:
  assumes "starts body ev" "\<And>e. appends (handler e)" "appends fin"
  shows "starts (tryCatchFinally body handler fin) ev"
proof (unfold starts_def, intro allI)
  fix w
  obtain r w1 where b: "body w = (r, w1)" by (cases "body w")
  from startsD[OF assms(1), of w] b obtain e1 where 1: "trace w1 = trace w @ ev # e1" by auto
  obtain r2 w2 where h: "(case r of Inl e \<Rightarrow> handler e w1 | Inr x \<Rightarrow> (Inr x, w1)) = (r2, w2)"
    by (cases "case r of Inl e \<Rightarrow> handler e w1 | Inr x \<Rightarrow> (Inr x, w1)")
  have "\<exists>e2. trace w2 = trace w1 @ e2"
  proof (cases r)
    case (Inl e)
    with h appendsD[OF assms(2), of e w1] show ?thesis by auto
  next
    case (Inr x)
    with h show ?thesis by auto
  qed
  then obtain e2 where 2: "trace w2 = trace w1 @ e2" by auto
  obtain r3 w3 where f: "fin w2 = (r3, w3)" by (cases "fin w2")
  from appendsD[OF assms(3), of w2] f obtain e3 where 3: "trace w3 = trace w2 @ e3" by auto
  have "snd (tryCatchFinally body handler fin w) = w3"
    using b h f by (simp add: tryCatchFinally_def split: sum.split)
  then show "\<exists>evs. trace (snd (tryCatchFinally body handler fin w)) = trace w @ ev # evs"
    using 1 2 3 by simp
qed

lemma performed_emit: "performed (emit ev) w = [ev]"
  by (simp add: performed_def io_simps)


section \<open>The account reader\<close>

lemma slice_skip:
  "length d = 8 \<Longrightarrow> 8 \<le> i \<Longrightarrow> slice (d @ rest) i j = slice rest (i - 8) (j - 8)"
  by (simp add: slice_def)

lemma parse_skip:
  assumes "length d = 8"
  shows "parseStakeAccount (d @ rest) =
    (case toNumber (BN_le (slice rest 32 40)) of
       Inl e \<Rightarrow> Inl e
     | Inr staked \<Rightarrow>
        (case toNumber (BN_le (slice rest 40 48)) of
           Inl e \<Rightarrow> Inl e
         | Inr points \<Rightarrow>
            (case toNumber (BN_le (slice rest 48 56)) of
               Inl e \<Rightarrow> Inl e
             | Inr updated \<Rightarrow>
                 Inr \<lparr>owner = slice rest 0 32, stakedAmount = staked, totalPoints = points,
                      lastUpdatedTime = updated, bump = rest ! 56\<rparr>)))"
  using assms by (simp add: parseStakeAccount_def slice_skip nth_append cong: sum.case_cong)

lemma first_bytes_differ: "take 8 (replicate 65 (0::byte)) \<noteq> take 8 (1 # replicate 64 0)"
  by (simp add: numeral_eq_Suc)

lemma reader_skips_discriminator:
  assumes "length d1 = 8" "length d2 = 8"
  shows "fetchStakeAccount_SP C (E\<lparr>account_at := \<lambda>_. Some (d1 @ rest)\<rparr>) now w =
         fetchStakeAccount_SP C (E\<lparr>account_at := \<lambda>_. Some (d2 @ rest)\<rparr>) now w"
  using assms
  by (simp add: fetchStakeAccount_SP_def tryCatchFinally_def returnE_def throwE_def bindE_def
      thenE_def modify_def remote_def resetAccount_def setStakeAccount_def Let_def parse_skip
      split: option.splits)

text \<open>
  Claim C5, as amended. The reader skips bytes \<open>[0,8)\<close> without looking at them: two
  accounts that differ only in their first eight bytes have the same outcome of the parse,
  and \<open>fetchStakeAccount\<close> leaves the same state on both. No account is refused for its
  discriminator.
\<close>

theorem parse_ignores_discriminator:
  assumes "length d1 = 8" "length d2 = 8"
  shows "parseStakeAccount (d1 @ rest) = parseStakeAccount (d2 @ rest) \<and>
    fetchStakeAccount_SP C (E\<lparr>account_at := \<lambda>_. Some (d1 @ rest)\<rparr>) now w =
    fetchStakeAccount_SP C (E\<lparr>account_at := \<lambda>_. Some (d2 @ rest)\<rparr>) now w"
  using assms reader_skips_discriminator[OF assms] by (simp only: parse_skip simp_thms)

text \<open>Witness for C5: an all-zero and an all-ones discriminator.\<close>

theorem parse_ignores_discriminator_witness:
  "parseStakeAccount (replicate 8 0 @ replicate 57 0) =
     parseStakeAccount (replicate 8 255 @ replicate 57 0) \<and>
   fetchStakeAccount_SP readyCtx
     (quietEnv\<lparr>account_at := \<lambda>_. Some (replicate 8 0 @ replicate 57 0)\<rparr>) 1700000000
     (programWorld 0) =
   fetchStakeAccount_SP readyCtx
     (quietEnv\<lparr>account_at := \<lambda>_. Some (replicate 8 255 @ replicate 57 0)\<rparr>) 1700000000
     (programWorld 0)"
  using parse_ignores_discriminator[of "replicate 8 0" "replicate 8 255" "replicate 57 0"
      readyCtx quietEnv 1700000000 "programWorld 0"]
  by simp

text \<open>
  Counterexample to C5 as stated: two accounts whose first eight bytes differ are both
  accepted as a position, so at least one of them does not carry the known constant.
\<close>

theorem discriminator_unchecked_counterexample:
  "parseStakeAccount (replicate 65 0) =
     Inr \<lparr>owner = replicate 32 0, stakedAmount = 0, totalPoints = 0, lastUpdatedTime = 0,
          bump = 0\<rparr> \<and>
   parseStakeAccount (1 # replicate 64 0) =
     Inr \<lparr>owner = replicate 32 0, stakedAmount = 0, totalPoints = 0, lastUpdatedTime = 0,
          bump = 0\<rparr> \<and>
   take 8 (replicate 65 0 :: byte list) \<noteq> take 8 (1 # replicate 64 0)"
  using first_bytes_differ
  by (simp add: parseStakeAccount_def slice_def toNumber_def BN_le_zeros)

text \<open>The read operation never throws.\<close>

lemma fetchStakeAccount_SP_returns: "fst (fetchStakeAccount_SP C E now w) = Inr ()"
  by (simp add: fetchStakeAccount_SP_def tryCatchFinally_def io_simps remote_def resetAccount_def
      setStakeAccount_def Let_def split: option.splits sum.splits prod.splits)

text \<open>
  Claim C6. When the account data is shorter than 65 bytes, \<open>fetchStakeAccount\<close> returns
  without throwing and leaves the position absent and the claimable points at zero,
  whether the call that fetched the data succeeded or failed.
\<close>

theorem short_account_not_initialized:
  assumes "connection C" "pdaAccount C" "publicKey C" "program C"
    and "account_at E (tick w) = Some data" "length data < 65"
  shows "fst (fetchStakeAccount_SP C E now w) = Inr () \<and>
    stakeAccount (hook (snd (fetchStakeAccount_SP C E now w))) = None \<and>
    calculatedPoints (hook (snd (fetchStakeAccount_SP C E now w))) = 0"
  using assms
  by (simp add: fetchStakeAccount_SP_def tryCatchFinally_def io_simps remote_def resetAccount_def
      setStakeAccount_def Let_def split: option.splits sum.splits prod.splits)

text \<open>Witness for C6: an account of three bytes.\<close>

theorem short_account_not_initialized_witness:
  "fst (fetchStakeAccount_SP readyCtx (quietEnv\<lparr>account_at := \<lambda>_. Some [1, 2, 3]\<rparr>) 1700000000
         (programWorld 864000)) = Inr () \<and>
   stakeAccount (hook (snd (fetchStakeAccount_SP readyCtx
     (quietEnv\<lparr>account_at := \<lambda>_. Some [1, 2, 3]\<rparr>) 1700000000 (programWorld 864000)))) = None \<and>
   calculatedPoints (hook (snd (fetchStakeAccount_SP readyCtx
     (quietEnv\<lparr>account_at := \<lambda>_. Some [1, 2, 3]\<rparr>) 1700000000 (programWorld 864000)))) = 0"
  using short_account_not_initialized[of readyCtx "quietEnv\<lparr>account_at := \<lambda>_. Some [1, 2, 3]\<rparr>"
      "programWorld 864000" "[1, 2, 3]" 1700000000]
  by (simp add: readyCtx_def quietEnv_def)


text \<open>
  The reader of lib/anchor, which the variants of useStaking call, treats the account the
  same way: it skips the discriminator, and a short account is no position.
\<close>

lemma decode_ignores_discriminator:
  "length d1 = 8 \<Longrightarrow> length d2 = 8 \<Longrightarrow>
   decodeStakeAccount (d1 @ rest) = decodeStakeAccount (d2 @ rest)"
  by (simp add: decodeStakeAccount_def)

lemma decode_short: "length data < 65 \<Longrightarrow> decodeStakeAccount data = None"
  by (auto simp: decodeStakeAccount_def Let_def)

text \<open>
  The utility \<open>calculatePoints\<close> of lib/utils computes in unbounded integers, with another
  rate: ten SOL staked for a day give \<open>10^10 * 86400 / 86400\<close> there.
\<close>

lemma calculatePoints_utils_day:
  "calculatePoints_utils (1700000000 + 86400) (10 * 10 ^ 9) 1700000000 = 10 * 10 ^ 9"
  by (simp add: calculatePoints_utils_def)

section \<open>Claiming in useStakeProgram\<close>

lemma starts_claimPoints_SP_submit:
  "starts (claimPoints_SP_submit C E now points) (Call GetLatestBlockhash)"
  unfolding claimPoints_SP_submit_def
  by (intro starts_silent_thenE silent_setLoading starts_tryCatchFinally starts_seqE starts_await
      appends_intros) (simp_all add: Let_def appends_intros)

text \<open>
  Claim C9. With a connected wallet and a configured points account, a claim with fewer
  than 50000 claimable points only shows the error toast: no transaction is built and no
  call is made. At exactly 50000 points the operation goes on, and its first event is the
  fetch of a blockhash for the on-chain claim.
\<close>

theorem claim_gate_50000:
  assumes "program C" "publicKey C" "pdaAccount C" "pointsAccountKeypair C"
  shows "(Math_floor (calculatedPoints (hook w)) < 50000 \<longrightarrow>
           performed (claimPoints_SP C E now) w =
             [Toast ''Error'' [Str ''You need at least 50000 points to claim.''] True]) \<and>
         (Math_floor (calculatedPoints (hook w)) = 50000 \<longrightarrow>
           (\<exists>rest. performed (claimPoints_SP C E now) w = Call GetLatestBlockhash # rest))"
proof (intro conjI impI)
  assume "Math_floor (calculatedPoints (hook w)) < 50000"
  then have "claimPoints_SP C E now w = errorToast ''You need at least 50000 points to claim.'' w"
    using assms by (simp add: claimPoints_SP_def Let_def)
  then show "performed (claimPoints_SP C E now) w =
      [Toast ''Error'' [Str ''You need at least 50000 points to claim.''] True]"
    by (simp add: performed_def errorToast_def io_simps)
next
  assume "Math_floor (calculatedPoints (hook w)) = 50000"
  then show "\<exists>rest. performed (claimPoints_SP C E now) w = Call GetLatestBlockhash # rest"
    using assms starts_performed[OF starts_claimPoints_SP_submit, of C E now 50000 w]
    by (simp add: claimPoints_SP_def Let_def performed_def)
qed

text \<open>Witness for C9: 49999 and 50000 points.\<close>

theorem claim_gate_50000_witness:
  "performed (claimPoints_SP readyCtx quietEnv 1700000000) (programWorld 49999) =
     [Toast ''Error'' [Str ''You need at least 50000 points to claim.''] True] \<and>
   (\<exists>rest. performed (claimPoints_SP readyCtx quietEnv 1700000000) (programWorld 50000) =
     Call GetLatestBlockhash # rest)"
  using claim_gate_50000[of readyCtx "programWorld 49999" quietEnv 1700000000]
    claim_gate_50000[of readyCtx "programWorld 50000" quietEnv 1700000000]
  by (simp add: readyCtx_def programWorld_def Math_floor_def)

text \<open>The whole-unit payout of 60000 points is zero.\<close>

lemma payout_of_60000: "Math_floor (js_div 60000 POINTS_PER_SOL) = 0"
  by code_simp

lemmas run_simps =
  tryCatchFinally_def io_simps remote_def await_def setLoading_def setStakeAccount_def
  errorToast_def performed_def Let_def

text \<open>
  Claim C1, at the failing input. With 60000 claimable points the payout is zero, and yet
  the on-chain claim is built, sent through the wallet and confirmed; only then is the
  error reported. The claim says that the operation aborts before the on-chain claim.
\<close>

theorem claim_60000_submits_then_fails:
  "performed (claimPoints_SP readyCtx quietEnv now) (programWorld 60000) =
     [Call GetLatestBlockhash,
      Call (BuildTransaction ClaimPoints),
      Call (WalletSendTransaction [ClaimPoints]),
      Call ConfirmTransaction,
      Toast ''Error'' [Str ''You need at least 100000 points to claim 1 SOL.''] True]"
  by (simp add: claimPoints_SP_def claimPoints_SP_submit_def readyCtx_def quietEnv_def
      programWorld_def Math_floor_def[of 60000] payout_of_60000 run_simps)

text \<open>Witness for C1: the same run, with the clock at 1700000000.\<close>

theorem claim_60000_submits_then_fails_witness:
  "performed (claimPoints_SP readyCtx quietEnv 1700000000) (programWorld 60000) =
     [Call GetLatestBlockhash,
      Call (BuildTransaction ClaimPoints),
      Call (WalletSendTransaction [ClaimPoints]),
      Call ConfirmTransaction,
      Toast ''Error'' [Str ''You need at least 100000 points to claim 1 SOL.''] True]"
  using claim_60000_submits_then_fails[of 1700000000] .


section \<open>Claiming in useStaking\<close>

lemma starts_claimPoints_A_submit:
  "starts (claimPoints_A_submit C E acct) (Call (BuildTransaction ClaimPoints))"
  unfolding claimPoints_A_submit_def
  by (intro starts_silent_thenE silent_setLoading starts_tryCatchFinally starts_seqE starts_await
      appends_intros) (simp_all add: appends_intros)

lemma starts_claimPoints_B_submit:
  "starts (claimPoints_B_submit C E acct) (Call (BuildTransaction ClaimPoints))"
  unfolding claimPoints_B_submit_def
  by (intro starts_silent_thenE silent_setLoading starts_tryCatchFinally starts_seqE starts_await
      appends_intros) (simp_all add: appends_intros)

lemma starts_claimPoints_C_submit:
  "starts (claimPoints_C_submit C E acct)
     (HotToast True [Str ''Successfully claimed '', Num (of_nat (totalPoints acct)), Str '' points''])"
  unfolding claimPoints_C_submit_def
  by (intro starts_silent_thenE silent_setLoading starts_tryCatchFinally starts_seqE starts_emit
      appends_intros) (simp_all add: appends_intros)

text \<open>
  Claim C10. In the three variants of useStaking, with a connected wallet and no operation
  in flight, the claim goes on exactly when a stake account is there and its stored
  \<open>totalPoints\<close> is not zero; otherwise the only event is the toast ``No points to
  claim''. The gate reads nothing else of the account: neither the staked amount nor the
  time of the last update.
\<close>

theorem claim_gate_stored_points:
  assumes "publicKey C" "sendTransaction C" "signTransaction C" "\<not> loading (hook w)"
  shows "if hasStoredPoints (hook w)
    then (\<exists>rest. performed (claimPoints_A C E) w = Call (BuildTransaction ClaimPoints) # rest) \<and>
         (\<exists>rest. performed (claimPoints_B C E) w = Call (BuildTransaction ClaimPoints) # rest) \<and>
         (\<exists>msg rest. performed (claimPoints_C C E) w = HotToast True msg # rest)
    else performed (claimPoints_A C E) w = [Toast ''Error'' [Str ''No points to claim''] True] \<and>
         performed (claimPoints_B C E) w = [Toast ''Error'' [Str ''No points to claim''] True] \<and>
         performed (claimPoints_C C E) w = [HotToast False [Str ''No points to claim'']]"
proof (cases "hasStoredPoints (hook w)")
  case True
  then obtain acct where a: "stakeAccount (hook w) = Some acct" "totalPoints acct \<noteq> 0"
    by (auto simp: hasStoredPoints_def split: option.splits)
  have "claimPoints_A C E w = claimPoints_A_submit C E acct w"
    "claimPoints_B C E w = claimPoints_B_submit C E acct w"
    "claimPoints_C C E w = claimPoints_C_submit C E acct w"
    using assms a by (simp_all add: claimPoints_A_def claimPoints_B_def claimPoints_C_def)
  then have "performed (claimPoints_A C E) w = performed (claimPoints_A_submit C E acct) w"
    "performed (claimPoints_B C E) w = performed (claimPoints_B_submit C E acct) w"
    "performed (claimPoints_C C E) w = performed (claimPoints_C_submit C E acct) w"
    by (simp_all add: performed_def)
  then show ?thesis
    using True starts_performed[OF starts_claimPoints_A_submit, of C E acct w]
      starts_performed[OF starts_claimPoints_B_submit, of C E acct w]
      starts_performed[OF starts_claimPoints_C_submit, of C E acct w]
    by auto
next
  case False
  then have "claimPoints_A C E w = errorToast ''No points to claim'' w"
    "claimPoints_B C E w = errorToast ''No points to claim'' w"
    "claimPoints_C C E w = emit (HotToast False [Str ''No points to claim'']) w"
    using assms
    by (auto simp: claimPoints_A_def claimPoints_B_def claimPoints_C_def hasStoredPoints_def
        split: option.splits)
  then show ?thesis
    using False by (simp add: performed_def errorToast_def io_simps)
qed

text \<open>
  Witness for C10: ten SOL staked for a day have earned 864000 points that are not yet
  checkpointed (\<open>totalPoints = 0\<close>), and the claim is rejected.
\<close>

theorem claim_gate_stored_points_witness:
  "pointsEarned 1700086400 (position 10000000000 0 1700000000) = 864000 \<and>
   performed (claimPoints_A readyCtx quietEnv)
     (stakingWorld False (Some (position 10000000000 0 1700000000))) =
       [Toast ''Error'' [Str ''No points to claim''] True] \<and>
   performed (claimPoints_B readyCtx quietEnv)
     (stakingWorld False (Some (position 10000000000 0 1700000000))) =
       [Toast ''Error'' [Str ''No points to claim''] True] \<and>
   performed (claimPoints_C readyCtx quietEnv)
     (stakingWorld False (Some (position 10000000000 0 1700000000))) =
       [HotToast False [Str ''No points to claim'']]"
  using claim_gate_stored_points[of readyCtx
      "stakingWorld False (Some (position 10000000000 0 1700000000))" quietEnv]
    pointsEarned_exact[of "position 10000000000 0 1700000000" 1700086400]
  by (simp add: readyCtx_def stakingWorld_def position_def hasStoredPoints_def)


section \<open>One operation at a time\<close>

text \<open>One SOL and six SOL, in lamports.\<close>

lemma lamports_of_sol:
  "Math_floor (js_mul 1 LAMPORTS_PER_SOL) = 1000000000"
  "Math_floor (js_mul 6 LAMPORTS_PER_SOL) = 6000000000"
  by code_simp+

text \<open>Variant B rejects every operation while \<open>loading\<close> is set.\<close>

lemma stake_B_rejects_while_loading:
  "loading (hook w) \<Longrightarrow>
   performed (stake_B C E amount) w = [Toast ''Please wait'' [Str ''Transaction in progress''] True]"
  by (simp add: stake_B_def pleaseWait_def performed_def io_simps)

lemma unstake_B_rejects_while_loading:
  "loading (hook w) \<Longrightarrow>
   performed (unstake_B C E amount) w = [Toast ''Please wait'' [Str ''Transaction in progress''] True]"
  by (simp add: unstake_B_def pleaseWait_def performed_def io_simps)

lemma claimPoints_B_rejects_while_loading:
  "loading (hook w) \<Longrightarrow>
   performed (claimPoints_B C E) w = [Toast ''Please wait'' [Str ''Transaction in progress''] True]"
  by (simp add: claimPoints_B_def pleaseWait_def performed_def io_simps)

text \<open>
  Claim C7, at the failing input. Variant A has no such guard: a stake of 1 SOL issued
  while \<open>loading\<close> is set is built, sent and confirmed, with no ``Please wait'',
  whatever position the hook holds.
\<close>

theorem stake_A_while_loading:
  "performed (stake_A readyCtx quietEnv 1) (stakingWorld True acct) =
     [Call (BuildTransaction (Stake 1000000000)),
      Call (WalletSendTransaction [Stake 1000000000]),
      Call ConfirmTransaction,
      Toast ''Success'' [Str ''Successfully staked '', Num 1, Str '' SOL''] False,
      Call GetBalance,
      Call GetAccountInfo,
      Call GetAccountInfo]"
  by (simp add: stake_A_def fetchBalance_def fetchStakeAccount_def readStakeAccount_def
      checkPDAExists_def getStakeAccount_def solToLamports_def lamports_of_sol
      readyCtx_def quietEnv_def stakingWorld_def run_simps)

text \<open>Witness for C7: no position is known yet.\<close>

theorem stake_A_while_loading_witness:
  "performed (stake_A readyCtx quietEnv 1) (stakingWorld True None) =
     [Call (BuildTransaction (Stake 1000000000)),
      Call (WalletSendTransaction [Stake 1000000000]),
      Call ConfirmTransaction,
      Toast ''Success'' [Str ''Successfully staked '', Num 1, Str '' SOL''] False,
      Call GetBalance,
      Call GetAccountInfo,
      Call GetAccountInfo]"
  using stake_A_while_loading[of None] .


section \<open>Unstaking more than the stake\<close>

text \<open>
  Variant B compares the lamports to unstake with the staked amount and makes no call
  when they exceed it.
\<close>

lemma unstake_B_rejects_excess:
  assumes "stakeAccount (hook w) = Some acct" "stakedAmount acct < 2 ^ 53"
    and "of_nat (stakedAmount acct) < Math_floor (js_mul amount LAMPORTS_PER_SOL)"
  shows "calls (performed (unstake_B C E amount) w) = []"
  using assms
  by (simp add: unstake_B_def pleaseWait_def walletNotConnected_def errorToast_def toNumber_def
      performed_def io_simps calls_def Let_def)

text \<open>
  Claim C8, at the failing input. Variant A does not compare: with 5 SOL staked, an
  unstake of 6 SOL is built, sent through the wallet and awaited; the last three calls
  refresh the balance and the position.
\<close>

theorem unstake_A_exceeding_staked:
  "performed (unstake_A readyCtx quietEnv 6)
     (stakingWorld False (Some (position 5000000000 points updated))) =
     [Call (BuildTransaction (Unstake 6000000000)),
      Call (WalletSendTransaction [Unstake 6000000000]),
      Call ConfirmTransaction,
      Toast ''Success'' [Str ''Successfully unstaked '', Num 6, Str '' SOL''] False,
      Call GetBalance,
      Call GetAccountInfo,
      Call GetAccountInfo]"
  by (simp add: unstake_A_def fetchBalance_def fetchStakeAccount_def readStakeAccount_def
      checkPDAExists_def getStakeAccount_def solToLamports_def lamports_of_sol
      readyCtx_def quietEnv_def stakingWorld_def position_def run_simps)

text \<open>Witness for C8: a position with no points, last updated at 1700000000.\<close>

theorem unstake_A_exceeding_staked_witness:
  "performed (unstake_A readyCtx quietEnv 6)
     (stakingWorld False (Some (position 5000000000 0 1700000000))) =
     [Call (BuildTransaction (Unstake 6000000000)),
      Call (WalletSendTransaction [Unstake 6000000000]),
      Call ConfirmTransaction,
      Toast ''Success'' [Str ''Successfully unstaked '', Num 6, Str '' SOL''] False,
      Call GetBalance,
      Call GetAccountInfo,
      Call GetAccountInfo]"
  using unstake_A_exceeding_staked[of 0 1700000000] .

text \<open>The same request in variant B.\<close>


lemma unstake_B_six_of_five:
  "performed (unstake_B readyCtx quietEnv 6)
     (stakingWorld False (Some (position 5000000000 0 1700000000))) =
     [Toast ''Error'' [Str ''Cannot unstake more than currently staked amount''] True]"
  by (simp add: unstake_B_def readyCtx_def stakingWorld_def position_def toNumber_def
      lamports_of_sol run_simps)

end
